theory Spec2Isabelle
  imports Main "HOL-Library.Sublist"
begin

section \<open>The vector search service (Backend/vector-service/app.py)\<close>

text \<open>
  The service answers \<open>POST /search\<close>: it checks the query vector against the loaded
  metadata, L2-normalises it, asks the FAISS index for the \<open>k\<close> nearest neighbours and
  joins the returned positions with the metadata catalogue.

  NumPy, FAISS, the JSON reader and the file system are libraries outside the file.
  Their operations are parameters of the model, and the index is an arbitrary search
  function. Two instances are given further down to run the handler on: a small
  fixed-point one, and the binary32 arithmetic of IEEE 754 that NumPy computes with.
\<close>

subsection \<open>Exceptions\<close>

text \<open>
  Every \<open>raise\<close> of the source is a value. \<open>HTTPException\<close> carries the status code and
  the detail; the other constructors are the Python exceptions the file raises itself or
  lets through from a library call.
\<close>

datatype error =
    HTTPException int string
  | RuntimeError string
  | FileNotFoundError string
  | ValueError string
  | TypeError
  | OverflowError
  | ValidationError
  | LibraryError string

subsection \<open>JSON documents\<close>

text \<open>
  What \<open>json.loads\<close> returns: \<open>None\<close>, \<open>bool\<close>, \<open>int\<close>, \<open>float\<close>, \<open>str\<close>, \<open>list\<close> and
  \<open>dict\<close>. \<open>'d\<close> is the type of Python floats (IEEE doubles). A \<open>dict\<close> is an association
  list read with \<open>map_of\<close>. A result object of the response is such a dict as well.
\<close>

datatype 'd json =
    JNull
  | JBool bool
  | JInt int
  | JFloat 'd
  | JStr string
  | JArr "'d json list"
  | JObj "(string \<times> 'd json) list"

type_synonym 'd dict = "(string \<times> 'd json) list"

text \<open>\<open>m.get(k)\<close>: the value stored under \<open>k\<close>, and \<open>None\<close> when the key is missing.\<close>

definition get :: "'d dict \<Rightarrow> string \<Rightarrow> 'd json" where
  "get m k = (case map_of m k of None \<Rightarrow> JNull | Some v \<Rightarrow> v)"

subsection \<open>Library operations\<close>

text \<open>
  \<open>'d\<close> is a Python float, \<open>'s\<close> an element of a \<open>float32\<close> array.
  \<^item> \<open>float32\<close>: the element conversion of \<open>np.asarray(_, dtype=np.float32)\<close>;
  \<^item> \<open>isfinite\<close>: \<open>np.isfinite\<close> on one element;
  \<^item> \<open>linalg_norm\<close>: \<open>float(np.linalg.norm(q))\<close>;
  \<^item> \<open>true_divide\<close>: one element of \<open>q / norm\<close>;
  \<^item> \<open>eq_zero\<close>: \<open>x == 0\<close> on a Python float;
  \<^item> \<open>int_of_float\<close>, \<open>int_of_str\<close>: the built-in \<open>int\<close> on a float and on a string,
    which may raise.
\<close>

record ('d, 's) lib =
  float32 :: "'d \<Rightarrow> 's"
  isfinite :: "'s \<Rightarrow> bool"
  linalg_norm :: "'s list \<Rightarrow> 'd"
  true_divide :: "'s \<Rightarrow> 'd \<Rightarrow> 's"
  eq_zero :: "'d \<Rightarrow> bool"
  int_of_float :: "'d \<Rightarrow> error + int"
  int_of_str :: "string \<Rightarrow> error + int"

text \<open>
  The loaded index is the one operation it offers: \<open>index.search(q, k)\<close> on a batch of one
  query row. It returns the rows \<open>distances[0].tolist()\<close> and \<open>indices[0].tolist()\<close>, or
  raises.
\<close>

type_synonym ('d, 's) faiss_index = "'s list \<Rightarrow> int \<Rightarrow> error + ('d list \<times> int list)"

subsection \<open>Python built-ins used by the handler\<close>

text \<open>Truth value of a JSON value, as \<open>or\<close> tests it.\<close>

fun truthy :: "('d, 's) lib \<Rightarrow> 'd json \<Rightarrow> bool" where
  "truthy L JNull = False"
| "truthy L (JBool b) = b"
| "truthy L (JInt n) = (n \<noteq> 0)"
| "truthy L (JFloat x) = (\<not> eq_zero L x)"
| "truthy L (JStr s) = (s \<noteq> [])"
| "truthy L (JArr xs) = (xs \<noteq> [])"
| "truthy L (JObj kvs) = (kvs \<noteq> [])"

text \<open>\<open>int(v)\<close> on a JSON value.\<close>

fun py_int :: "('d, 's) lib \<Rightarrow> 'd json \<Rightarrow> error + int" where
  "py_int L JNull = Inl TypeError"
| "py_int L (JBool b) = Inr (if b then 1 else 0)"
| "py_int L (JInt n) = Inr n"
| "py_int L (JFloat x) = int_of_float L x"
| "py_int L (JStr s) = int_of_str L s"
| "py_int L (JArr xs) = Inl TypeError"
| "py_int L (JObj kvs) = Inl TypeError"

text \<open>\<open>str(n)\<close> on an integer, as the f-string of the length message formats \<open>dim\<close>.\<close>

fun str_nat :: "nat \<Rightarrow> string" where
  "str_nat n =
     (if n < 10 then [char_of (48 + n)]
      else str_nat (n div 10) @ [char_of (48 + n mod 10)])"

declare str_nat.simps [simp del]

definition str_int :: "int \<Rightarrow> string" where
  "str_int i = (if i < 0 then CHR ''-'' # str_nat (nat (- i)) else str_nat (nat i))"

subsection \<open>Request and process state\<close>

text \<open>
  \<open>class SearchRequest(BaseModel)\<close>: \<open>vector: list[float]\<close> and
  \<open>topK: int = Field(50, ge=1, le=200)\<close>.
\<close>

record 'd SearchRequest =
  vector :: "'d list"
  topK :: int

text \<open>
  Building a \<open>SearchRequest\<close> from the fields of the request body: a missing \<open>topK\<close>
  takes the default 50, and a value outside \<open>ge=1, le=200\<close> raises the validation error
  of the model class, so the handler is not entered.
\<close>

definition SearchRequest_validate :: "'d list \<Rightarrow> int option \<Rightarrow> error + 'd SearchRequest" where
  "SearchRequest_validate v t =
     (let k = (case t of None \<Rightarrow> 50 | Some n \<Rightarrow> n)
      in if 1 \<le> k \<and> k \<le> 200 then Inr \<lparr>vector = v, topK = k\<rparr> else Inl ValidationError)"

text \<open>The module globals \<open>_INDEX\<close> and \<open>_META\<close>, both \<open>None\<close> until startup has run.\<close>

record ('d, 's) state =
  INDEX :: "('d, 's) faiss_index option"
  META :: "'d dict option"

definition initial :: "('d, 's) state" where
  "initial = \<lparr>INDEX = None, META = None\<rparr>"

subsection \<open>The search handler\<close>

text \<open>
  \<open>int(_META.get("dim") or 0)\<close> (line 72): a missing or falsy \<open>dim\<close> counts as 0, and
  \<open>int\<close> may raise on what is left.
\<close>

definition declared_dim :: "('d, 's) lib \<Rightarrow> 'd dict \<Rightarrow> error + int" where
  "declared_dim L meta =
     (let d = get meta ''dim'' in py_int L (if truthy L d then d else JInt 0))"

text \<open>
  Calls into the libraries that the handler makes on the way, in order. They let a
  statement say that a request was turned away before the norm was taken or before the
  index was asked.
\<close>

datatype ('d, 's) call =
    Norm "'s list"
  | Divide "'s list" 'd
  | IndexSearch "'s list" int

type_synonym 'd result = "'d dict"

text \<open>The dict appended for one neighbour (lines 96 to 109).\<close>

definition result_of :: "'d dict \<Rightarrow> 'd \<Rightarrow> 'd result" where
  "result_of m score =
     [(''imdbId'', get m ''imdbId''),
      (''id'', get m ''id''),
      (''title'', get m ''title''),
      (''year'', get m ''year''),
      (''genre'', get m ''genre''),
      (''productionCountry'', get m ''productionCountry''),
      (''keywords'', get m ''keywords''),
      (''moodTags'', get m ''moodTags''),
      (''score'', JFloat score),
      (''similarity'', JFloat score)]"

text \<open>\<open>items[idx] if isinstance(items[idx], dict) else {}\<close>, for an index in range.\<close>

definition record_at :: "'d json list \<Rightarrow> int \<Rightarrow> 'd dict" where
  "record_at items idx = (case items ! nat idx of JObj m \<Rightarrow> m | _ \<Rightarrow> [])"

text \<open>
  The loop over \<open>zip(distances[0].tolist(), indices[0].tolist())\<close>; \<open>results\<close> is the
  list built so far. A position out of range takes the \<open>continue\<close>.
\<close>

fun join_results :: "'d json list \<Rightarrow> ('d \<times> int) list \<Rightarrow> 'd result list \<Rightarrow> 'd result list" where
  "join_results items [] results = results"
| "join_results items ((score, idx) # rest) results =
     (if idx < 0 \<or> idx \<ge> int (length items) then join_results items rest results
      else join_results items rest (results @ [result_of (record_at items idx) score]))"

text \<open>
  \<open>search(req)\<close>. The value is the list of library calls made and either the exception
  raised or the list under the key \<open>results\<close> of the response. \<open>q'\<close> is the
  normalised \<open>q\<close>. An array built from a
  \<open>list[float]\<close> has \<open>ndim = 1\<close>, so the test \<open>q.ndim != 1\<close> is never true and only the
  length is compared.
\<close>

definition search ::
  "('d, 's) lib \<Rightarrow> ('d, 's) state \<Rightarrow> 'd SearchRequest \<Rightarrow>
     ('d, 's) call list \<times> (error + 'd result list)" where
  "search L st req =
     (case (INDEX st, META st) of
        (Some index, Some meta) \<Rightarrow>
          (case get meta ''items'' of
             JArr items \<Rightarrow>
               (case declared_dim L meta of
                     Inl e \<Rightarrow> ([], Inl e)
                   | Inr dim \<Rightarrow>
                       if dim \<le> 0
                       then ([], Inl (HTTPException 500 ''Invalid vector dim in meta.json''))
                       else
                         let q = map (float32 L) (vector req)
                         in if int (length q) \<noteq> dim
                            then ([], Inl (HTTPException 400
                                             (''vector must have length '' @ str_int dim)))
                            else if \<not> list_all (isfinite L) q
                            then ([], Inl (HTTPException 400 ''vector contains non-finite values''))
                            else
                              let norm = linalg_norm L q
                              in if eq_zero L norm
                                 then ([Norm q], Inl (HTTPException 400 ''vector norm is 0''))
                                 else
                                   let q' = map (\<lambda>x. true_divide L x norm) q;
                                       k = min (max 1 (topK req)) (int (length items));
                                       calls = [Norm q, Divide q norm, IndexSearch q' k]
                                   in (case index q' k of
                                         Inl e \<Rightarrow> (calls, Inl e)
                                       | Inr (distances, indices) \<Rightarrow>
                                           (calls, Inr (join_results items (zip distances indices) []))))
           | _ \<Rightarrow> ([], Inl (HTTPException 500 ''Invalid meta.json'')))
      | _ \<Rightarrow> ([], Inl (HTTPException 500 ''Index not loaded'')))"

text \<open>
  The route \<open>POST /search\<close>: the body is validated into a \<open>SearchRequest\<close> first, and the
  handler runs on the validated request only.
\<close>

definition post_search ::
  "('d, 's) lib \<Rightarrow> ('d, 's) state \<Rightarrow> 'd list \<Rightarrow> int option \<Rightarrow>
     ('d, 's) call list \<times> (error + 'd result list)" where
  "post_search L st v t =
     (case SearchRequest_validate v t of
        Inl e \<Rightarrow> ([], Inl e)
      | Inr req \<Rightarrow> search L st req)"

subsection \<open>The asset loader and startup\<close>

text \<open>
  What the loader reads from outside the process:
  \<^item> \<open>LOCAL_DATA_PATH\<close>: \<open>os.environ.get("LOCAL_DATA_PATH")\<close>;
  \<^item> \<open>resolve\<close>: \<open>Path(raw).expanduser().resolve()\<close>, which may raise;
  \<^item> \<open>joinpath\<close>: the operator \<open>/\<close> of \<open>Path\<close>;
  \<^item> \<open>path_exists\<close>: \<open>Path.exists\<close>;
  \<^item> \<open>read_index\<close>: \<open>import faiss\<close> and \<open>faiss.read_index(str(index_path))\<close>;
  \<^item> \<open>loads_text\<close>: \<open>json.loads(meta_path.read_text(encoding="utf-8"))\<close>.
\<close>

record ('d, 's) os =
  LOCAL_DATA_PATH :: "string option"
  resolve :: "string \<Rightarrow> error + string"
  joinpath :: "string \<Rightarrow> string \<Rightarrow> string"
  path_exists :: "string \<Rightarrow> bool"
  read_index :: "string \<Rightarrow> error + ('d, 's) faiss_index"
  loads_text :: "string \<Rightarrow> error + 'd json"

text \<open>
  \<open>str.strip()\<close> removes white space at both ends. A \<open>char\<close> is read as a code point
  below 256; of these, Python counts the following as white space.
\<close>

definition isspace :: "char \<Rightarrow> bool" where
  "isspace c \<longleftrightarrow> (of_char c :: nat) \<in> {9, 10, 11, 12, 13, 28, 29, 30, 31, 32, 133, 160}"

definition strip :: "string \<Rightarrow> string" where
  "strip s = rev (dropWhile isspace (rev (dropWhile isspace s)))"

definition missing_path :: string where
  "missing_path =
     ''Missing LOCAL_DATA_PATH. Set LOCAL_DATA_PATH to the folder containing '' @
     ''index/faiss.index + index/meta.json''"

definition missing_assets :: string where
  "missing_assets =
     ''Missing index assets (faiss.index/meta.json). '' @
     ''Run: python build_index.py (in vector-service/)''"

definition invalid_meta :: string where
  "invalid_meta = ''meta.json must be an object with an 'items' field''"

text \<open>\<open>_data_dir()\<close>: a missing, empty or blank setting raises.\<close>

definition data_dir :: "('d, 's) os \<Rightarrow> error + string" where
  "data_dir env =
     (case LOCAL_DATA_PATH env of
        None \<Rightarrow> Inl (RuntimeError missing_path)
      | Some raw \<Rightarrow>
          if raw = [] \<or> strip raw = [] then Inl (RuntimeError missing_path)
          else (case resolve env raw of
                  Inl e \<Rightarrow> Inl e
                | Inr root \<Rightarrow> Inr (joinpath env root ''index'')))"

text \<open>
  \<open>_load_assets()\<close>. The test on the metadata is that of line 41: \<open>meta\<close> is a
  \<open>dict\<close> and has the key \<open>items\<close>.
\<close>

definition load_assets :: "('d, 's) os \<Rightarrow> error + (('d, 's) faiss_index \<times> 'd dict)" where
  "load_assets env =
     (case data_dir env of
        Inl e \<Rightarrow> Inl e
      | Inr dir \<Rightarrow>
          let index_path = joinpath env dir ''faiss.index'';
              meta_path = joinpath env dir ''meta.json''
          in if \<not> path_exists env index_path \<or> \<not> path_exists env meta_path
             then Inl (FileNotFoundError missing_assets)
             else (case read_index env index_path of
                     Inl e \<Rightarrow> Inl e
                   | Inr index \<Rightarrow>
                       (case loads_text env meta_path of
                          Inl e \<Rightarrow> Inl e
                        | Inr (JObj meta) \<Rightarrow>
                            if ''items'' \<notin> set (map fst meta)
                            then Inl (ValueError invalid_meta)
                            else Inr (index, meta)
                        | Inr _ \<Rightarrow> Inl (ValueError invalid_meta))))"

text \<open>
  \<open>_startup()\<close> assigns both globals from the loader's result. When the loader raises,
  the assignment is not reached and the globals keep their values.
\<close>

definition startup :: "('d, 's) os \<Rightarrow> ('d, 's) state \<Rightarrow> ('d, 's) state \<times> (error + unit)" where
  "startup env st =
     (case load_assets env of
        Inl e \<Rightarrow> (st, Inl e)
      | Inr (index, meta) \<Rightarrow> (st\<lparr>INDEX := Some index, META := Some meta\<rparr>, Inr ()))"

text \<open>
  Modelled from the spec: the life cycle of the server process, which belongs to the ASGI
  server started at line 117 and is not part of the source file. The spec (4.1, 5) has
  loading complete, or fail the whole process startup, before any request is dispatched,
  and the service accept no traffic if loading fails. So the process runs the startup
  hook on the initial globals; when the hook raises, the process exits with that
  exception, and otherwise it is \<open>Ready\<close> with the globals the hook has set.
\<close>

datatype ('d, 's) service = Ready "('d, 's) state" | Exited error

definition run :: "('d, 's) os \<Rightarrow> ('d, 's) service" where
  "run env =
     (case startup env initial of
        (st, Inl e) \<Rightarrow> Exited e
      | (st, Inr u) \<Rightarrow> Ready st)"

text \<open>
  Modelled from the spec: a request body \<open>v\<close>, \<open>t\<close> sent to \<open>POST /search\<close>. A process
  that is \<open>Ready\<close> hands it to the route; a process that has exited accepts no
  request, which is the value \<open>None\<close>.
\<close>

fun dispatch ::
  "('d, 's) lib \<Rightarrow> ('d, 's) service \<Rightarrow> 'd list \<Rightarrow> int option \<Rightarrow>
     (('d, 's) call list \<times> (error + 'd result list)) option" where
  "dispatch L (Ready st) v t = Some (post_search L st v t)"
| "dispatch L (Exited e) v t = None"

subsection \<open>A loaded service with usable metadata\<close>

text \<open>
  The three guards at the head of the handler (lines 65 to 74) answer 500. They are
  passed exactly when both globals are set, \<open>items\<close> is a list and the declared
  dimension is a positive integer.
\<close>

definition ready ::
  "('d, 's) lib \<Rightarrow> ('d, 's) state \<Rightarrow> ('d, 's) faiss_index \<Rightarrow> 'd json list \<Rightarrow> int \<Rightarrow> bool" where
  "ready L st index items dim \<longleftrightarrow>
     INDEX st = Some index \<and>
     (case META st of
        None \<Rightarrow> False
      | Some meta \<Rightarrow> get meta ''items'' = JArr items \<and> declared_dim L meta = Inr dim) \<and>
     0 < dim"

section \<open>A small instance to run the model on\<close>

text \<open>
  Decimal fixed-point numbers with one fractional digit (\<open>Fin 25\<close> stands for 2.5),
  the two infinities and NaN. Sums and products are exact, the square root and the
  quotient are rounded down. The instance is used to evaluate the handler on concrete
  requests; no theorem about the handler depends on it.
\<close>

datatype fixed = Fin int | PosInf | NegInf | NaN

fun finite_fixed :: "fixed \<Rightarrow> bool" where
  "finite_fixed (Fin n) = True"
| "finite_fixed x = False"

fun sumsq :: "fixed list \<Rightarrow> nat" where
  "sumsq [] = 0"
| "sumsq (Fin n # xs) = nat (n * n) + sumsq xs"
| "sumsq (x # xs) = sumsq xs"

text \<open>The largest \<open>s \<ge> r\<close> with \<open>s * s \<le> n\<close>, found by counting up from \<open>r\<close>.\<close>

function isqrt_from :: "nat \<Rightarrow> nat \<Rightarrow> nat" where
  "isqrt_from n r = (if n < (r + 1) * (r + 1) then r else isqrt_from n (r + 1))"
  by pat_completeness auto
termination
proof (relation "measure (\<lambda>(n, r). n - r)")
  show "wf (measure (\<lambda>(n, r). n - r))" by simp
next
  fix n r :: nat
  assume "\<not> n < (r + 1) * (r + 1)"
  then have "(r + 1) * (r + 1) \<le> n" by simp
  moreover have "r + 1 \<le> (r + 1) * (r + 1)" by simp
  ultimately have "r < n" by linarith
  then show "((n, r + 1), (n, r)) \<in> measure (\<lambda>(n, r). n - r)" by simp
qed

declare isqrt_from.simps [simp del]

definition norm_fixed :: "fixed list \<Rightarrow> fixed" where
  "norm_fixed q =
     (if list_all finite_fixed q then Fin (int (isqrt_from (sumsq q) 0))
      else if NaN \<in> set q then NaN else PosInf)"

fun divide_fixed :: "fixed \<Rightarrow> fixed \<Rightarrow> fixed" where
  "divide_fixed (Fin a) (Fin b) = (if b = 0 then NaN else Fin (a * 10 div b))"
| "divide_fixed x y = NaN"

fun int_fixed :: "fixed \<Rightarrow> error + int" where
  "int_fixed (Fin n) = Inr (if 0 \<le> n then n div 10 else - ((- n) div 10))"
| "int_fixed NaN = Inl (ValueError ''cannot convert float NaN to integer'')"
| "int_fixed x = Inl OverflowError"

definition int_digits :: "string \<Rightarrow> error + int" where
  "int_digits s =
     (if s \<noteq> [] \<and> list_all (\<lambda>c. 48 \<le> (of_char c :: nat) \<and> (of_char c :: nat) \<le> 57) s
      then Inr (foldl (\<lambda>a c. 10 * a + (int (of_char c) - 48)) 0 s)
      else Inl (ValueError ''invalid literal for int()''))"

text \<open>The comparison \<open>a >= b\<close>: false whenever a NaN is involved.\<close>

fun ge_fixed :: "fixed \<Rightarrow> fixed \<Rightarrow> bool" where
  "ge_fixed (Fin a) (Fin b) = (b \<le> a)"
| "ge_fixed NaN b = False"
| "ge_fixed a NaN = False"
| "ge_fixed PosInf b = True"
| "ge_fixed a NegInf = True"
| "ge_fixed a b = False"

definition fixed_lib :: "(fixed, fixed) lib" where
  "fixed_lib =
     \<lparr>float32 = (\<lambda>x. x), isfinite = finite_fixed, linalg_norm = norm_fixed,
      true_divide = divide_fixed, eq_zero = (\<lambda>x. x = Fin 0),
      int_of_float = int_fixed, int_of_str = int_digits\<rparr>"

text \<open>
  A catalogue of three entries, the second of which is not an object, with dimension 2,
  and an index that ranks position 0 first, position 1 second and pads with \<open>-1\<close>.
\<close>

definition example_items :: "fixed json list" where
  "example_items =
     [JObj [(''id'', JInt 1), (''title'', JStr ''Alien''), (''year'', JInt 1979)],
      JStr ''not a record'',
      JObj [(''id'', JInt 3), (''title'', JStr ''Heat'')]]"

definition example_index :: "(fixed, fixed) faiss_index" where
  "example_index q k =
     Inr (take (nat k) [Fin 10, Fin 5, Fin 0], take (nat k) [0, 1, - 1])"

definition example_state :: "(fixed, fixed) state" where
  "example_state =
     \<lparr>INDEX = Some example_index,
      META = Some [(''items'', JArr example_items), (''dim'', JInt 2)]\<rparr>"

text \<open>The same index over a catalogue of ten empty records.\<close>

definition ten_state :: "(fixed, fixed) state" where
  "ten_state =
     \<lparr>INDEX = Some example_index,
      META = Some [(''items'', JArr (replicate 10 (JObj []))), (''dim'', JInt 2)]\<rparr>"

text \<open>Loaded states whose \<open>meta.json\<close> passed the loader but is not usable.\<close>

definition no_dim_state :: "(fixed, fixed) state" where
  "no_dim_state =
     \<lparr>INDEX = Some example_index, META = Some [(''items'', JArr example_items)]\<rparr>"

definition items_not_list_state :: "(fixed, fixed) state" where
  "items_not_list_state =
     \<lparr>INDEX = Some example_index,
      META = Some [(''items'', JStr ''none''), (''dim'', JInt 2)]\<rparr>"

definition zero_dim_state :: "(fixed, fixed) state" where
  "zero_dim_state =
     \<lparr>INDEX = Some example_index,
      META = Some [(''items'', JArr example_items), (''dim'', JInt 0)]\<rparr>"

text \<open>
  A data directory in which both files exist; \<open>meta.json\<close> holds the given document.
\<close>

definition example_os :: "fixed json \<Rightarrow> (fixed, fixed) os" where
  "example_os doc =
     \<lparr>LOCAL_DATA_PATH = Some ''/data'',
      resolve = Inr,
      joinpath = (\<lambda>p name. p @ ''/'' @ name),
      path_exists = (\<lambda>p. p = ''/data/index/faiss.index'' \<or> p = ''/data/index/meta.json''),
      read_index = (\<lambda>p. Inr example_index),
      loads_text = (\<lambda>p. Inr doc)\<rparr>"

section \<open>IEEE 754 binary floating point\<close>

text \<open>
  The elements of a \<open>float32\<close> array are numbers of the format binary32 of IEEE 754, and
  a Python float is one of binary64. A finite number is a dyadic rational \<open>m * 2^e\<close>, kept
  as \<open>Dy m e\<close>; the two zeros are not told apart. A format is its precision in bits and
  its largest exponent. Every operation takes the exact result and rounds it to the
  nearest number of the format, ties to even; a result whose rounded magnitude reaches
  \<open>2^(emax + 1)\<close> is an infinity, and one below half the least subnormal number is zero.
\<close>

datatype ieee = Dy int int | Inf_plus | Inf_minus | Nan

record fmt =
  precision :: nat
  emax :: int

definition binary32 :: fmt where
  "binary32 = \<lparr>precision = 24, emax = 127\<rparr>"

text \<open>The number of bits of \<open>n\<close>, the \<open>int.bit_length\<close> of Python.\<close>

fun bit_length :: "nat \<Rightarrow> nat" where
  "bit_length n = (if n = 0 then 0 else Suc (bit_length (n div 2)))"

declare bit_length.simps [simp del]

text \<open>The integer square root, rounded down.\<close>

fun isqrt :: "nat \<Rightarrow> nat" where
  "isqrt n =
     (if n < 2 then n
      else let r = 2 * isqrt (n div 4)
           in if (r + 1) * (r + 1) \<le> n then r + 1 else r)"

declare isqrt.simps [simp del]

fun is_nan :: "ieee \<Rightarrow> bool" where
  "is_nan Nan = True"
| "is_nan x = False"

fun is_inf :: "ieee \<Rightarrow> bool" where
  "is_inf Inf_plus = True"
| "is_inf Inf_minus = True"
| "is_inf x = False"

fun is_zero :: "ieee \<Rightarrow> bool" where
  "is_zero (Dy m e) = (m = 0)"
| "is_zero x = False"

fun negative :: "ieee \<Rightarrow> bool" where
  "negative (Dy m e) = (m < 0)"
| "negative Inf_minus = True"
| "negative x = False"

definition infinity :: "bool \<Rightarrow> ieee" where
  "infinity neg = (if neg then Inf_minus else Inf_plus)"

text \<open>
  Rounding of the exact value \<open>m * 2^e\<close>. \<open>top\<close> is the exponent of its leading bit and
  \<open>quantum\<close> the exponent of the last place kept: \<open>precision\<close> bits below the leading
  one, and never below that of the subnormal numbers. The \<open>s\<close> bits dropped decide the
  direction, a tie going to the even neighbour.
\<close>

definition round_nearest_even :: "fmt \<Rightarrow> int \<Rightarrow> int \<Rightarrow> ieee" where
  "round_nearest_even f m e =
     (if m = 0 then Dy 0 0
      else
        let a = nat \<bar>m\<bar>;
            top = e + int (bit_length a) - 1;
            quantum = max (top - (int (precision f) - 1)) (1 - emax f - (int (precision f) - 1));
            s = nat (quantum - e);
            t = (if quantum \<le> e then a
                 else if 2 ^ (s - 1) < a mod 2 ^ s \<or> (a mod 2 ^ s = 2 ^ (s - 1) \<and> odd (a div 2 ^ s))
                      then a div 2 ^ s + 1
                      else a div 2 ^ s);
            q = (if quantum \<le> e then e else quantum)
        in if t = 0 then Dy 0 0
           else if emax f < q + int (bit_length t) - 1 then infinity (m < 0)
           else Dy (if m < 0 then - int t else int t) q)"

definition ieee_mul :: "fmt \<Rightarrow> ieee \<Rightarrow> ieee \<Rightarrow> ieee" where
  "ieee_mul f x y =
     (case (x, y) of
        (Dy m e, Dy n d) \<Rightarrow> round_nearest_even f (m * n) (e + d)
      | _ \<Rightarrow> if is_nan x \<or> is_nan y \<or> is_zero x \<or> is_zero y then Nan
             else infinity (negative x \<noteq> negative y))"

definition ieee_add :: "fmt \<Rightarrow> ieee \<Rightarrow> ieee \<Rightarrow> ieee" where
  "ieee_add f x y =
     (case (x, y) of
        (Dy m e, Dy n d) \<Rightarrow>
          let q = min e d
          in round_nearest_even f (m * 2 ^ nat (e - q) + n * 2 ^ nat (d - q)) q
      | _ \<Rightarrow> if is_nan x \<or> is_nan y \<or> (is_inf x \<and> is_inf y \<and> x \<noteq> y) then Nan
             else if is_inf x then x else y)"

text \<open>
  The quotient and the square root are not dyadic. They are computed to more bits than
  the format keeps, with a last bit set when the remainder is not zero, so that rounding
  this approximation is rounding the exact value.
\<close>

definition ieee_div :: "fmt \<Rightarrow> ieee \<Rightarrow> ieee \<Rightarrow> ieee" where
  "ieee_div f x y =
     (case (x, y) of
        (Dy m e, Dy n d) \<Rightarrow>
          if n = 0 then (if m = 0 then Nan else infinity (m < 0))
          else
            let b = nat \<bar>n\<bar>;
                k = precision f + 3 + bit_length b;
                a = nat \<bar>m\<bar> * 2 ^ k;
                t = 2 * (a div b) + (if a mod b = 0 then 0 else 1)
            in round_nearest_even f (if (m < 0) = (n < 0) then int t else - int t)
                 (e - d - int k - 1)
      | (Dy m e, _) \<Rightarrow> if is_nan y then Nan else Dy 0 0
      | _ \<Rightarrow> if is_nan x \<or> is_nan y \<or> is_inf y then Nan
             else infinity (negative x \<noteq> negative y))"

definition ieee_sqrt :: "fmt \<Rightarrow> ieee \<Rightarrow> ieee" where
  "ieee_sqrt f x =
     (case x of
        Dy m e \<Rightarrow>
          if m < 0 then Nan
          else
            let k = 2 * int (precision f) + 8;
                a = nat m * 2 ^ nat (k + e mod 2);
                s = isqrt a;
                t = 2 * s + (if s * s = a then 0 else 1)
            in round_nearest_even f (int t) ((e - e mod 2 - k) div 2 - 1)
      | Inf_plus \<Rightarrow> Inf_plus
      | _ \<Rightarrow> Nan)"

text \<open>
  \<open>x.dot(y)\<close> on two arrays of the format: each product and each partial sum is rounded.
  \<open>np.linalg.norm\<close> of a one-dimensional real array is \<open>sqrt(x.dot(x))\<close>, in the format of
  the array.
\<close>

definition ieee_dot :: "fmt \<Rightarrow> ieee list \<Rightarrow> ieee list \<Rightarrow> ieee" where
  "ieee_dot f xs ys = foldl (\<lambda>acc (x, y). ieee_add f acc (ieee_mul f x y)) (Dy 0 0) (zip xs ys)"

text \<open>Conversion to a format, and \<open>int(x)\<close>, which truncates towards zero.\<close>

fun to_format :: "fmt \<Rightarrow> ieee \<Rightarrow> ieee" where
  "to_format f (Dy m e) = round_nearest_even f m e"
| "to_format f x = x"

fun int_ieee :: "ieee \<Rightarrow> error + int" where
  "int_ieee (Dy m e) =
     Inr (if 0 \<le> e then m * 2 ^ nat e
          else if 0 \<le> m then m div 2 ^ nat (- e) else - ((- m) div 2 ^ nat (- e)))"
| "int_ieee Nan = Inl (ValueError ''cannot convert float NaN to integer'')"
| "int_ieee x = Inl OverflowError"

text \<open>
  The library over these numbers. The norm is taken in binary32 and converted to a Python
  float without loss; in \<open>q / norm\<close> the Python float is converted to binary32 and the
  division is that of binary32.
\<close>

definition ieee_lib :: "(ieee, ieee) lib" where
  "ieee_lib =
     \<lparr>float32 = to_format binary32,
      isfinite = (\<lambda>x. \<not> is_nan x \<and> \<not> is_inf x),
      linalg_norm = (\<lambda>q. ieee_sqrt binary32 (ieee_dot binary32 q q)),
      true_divide = (\<lambda>x n. ieee_div binary32 x (to_format binary32 n)),
      eq_zero = is_zero,
      int_of_float = int_ieee,
      int_of_str = int_digits\<rparr>"

text \<open>
  An inner-product index over the single stored vector \<open>[1.0, 0.0]\<close>, and a loaded
  service of dimension 2 with it.
\<close>

definition inner_product_index :: "(ieee, ieee) faiss_index" where
  "inner_product_index q k =
     Inr (take (nat k) [ieee_dot binary32 q [Dy 1 0, Dy 0 0]], take (nat k) [0])"

definition ieee_state :: "(ieee, ieee) state" where
  "ieee_state =
     \<lparr>INDEX = Some inner_product_index,
      META = Some [(''items'', JArr [JObj [(''id'', JInt 1)]]), (''dim'', JInt 2)]\<rparr>"

section \<open>Properties\<close>

subsection \<open>The handler, guard by guard\<close>

lemma join_results_filter:
  "join_results items ps acc =
     acc @ map (\<lambda>(score, idx). result_of (record_at items idx) score)
             (filter (\<lambda>(score, idx). 0 \<le> idx \<and> idx < int (length items)) ps)"
  by (induction items ps acc rule: join_results.induct) auto

lemma sorted_wrt_scores:
  "sorted_wrt ge ds \<Longrightarrow> sorted_wrt ge (map fst (filter P (zip ds js)))"
proof (induction ds arbitrary: js)
  case Nil
  then show ?case by simp
next
  case (Cons d ds)
  show ?case
  proof (cases js)
    case Nil
    then show ?thesis by simp
  next
    case (Cons j js')
    have "set (map fst (filter P (zip ds js'))) \<subseteq> set ds"
      by (auto dest: set_zip_leftD)
    with Cons.prems Cons.IH [of js'] Cons show ?thesis
      by auto
  qed
qed

lemma score_result_of: "get (result_of m s) ''score'' = JFloat s"
  by (simp add: result_of_def get_def)

lemma search_ready:
  assumes "ready L st index items dim"
  shows "search L st req =
     (let q = map (float32 L) (vector req)
      in if int (length q) \<noteq> dim
         then ([], Inl (HTTPException 400 (''vector must have length '' @ str_int dim)))
         else if \<not> list_all (isfinite L) q
         then ([], Inl (HTTPException 400 ''vector contains non-finite values''))
         else
           let norm = linalg_norm L q
           in if eq_zero L norm
              then ([Norm q], Inl (HTTPException 400 ''vector norm is 0''))
              else
                let q' = map (\<lambda>x. true_divide L x norm) q;
                    k = min (max 1 (topK req)) (int (length items));
                    calls = [Norm q, Divide q norm, IndexSearch q' k]
                in (case index q' k of
                      Inl e \<Rightarrow> (calls, Inl e)
                    | Inr (distances, indices) \<Rightarrow>
                        (calls, Inr (join_results items (zip distances indices) []))))"
proof -
  from assms obtain meta where
    "INDEX st = Some index" "META st = Some meta" "get meta ''items'' = JArr items"
    "declared_dim L meta = Inr dim" "0 < dim"
    by (auto simp: ready_def split: option.splits)
  then show ?thesis
    by (simp add: search_def Let_def)
qed

text \<open>Outside such a state the handler answers with an error and calls no library.\<close>

lemma search_not_ready:
  assumes "\<not> (\<exists>index items dim. ready L st index items dim)"
  shows "\<exists>e. search L st req = ([], Inl e)"
proof (cases "INDEX st")
  case None
  then show ?thesis by (simp add: search_def)
next
  case (Some index)
  note i = this
  show ?thesis
  proof (cases "META st")
    case None
    with i show ?thesis by (simp add: search_def)
  next
    case (Some meta)
    note m = this
    show ?thesis
    proof (cases "\<exists>items. get meta ''items'' = JArr items")
      case False
      with i m show ?thesis
        by (cases "get meta ''items''") (simp_all add: search_def)
    next
      case True
      then obtain items where it: "get meta ''items'' = JArr items" ..
      show ?thesis
      proof (cases "declared_dim L meta")
        case (Inl e)
        with i m it show ?thesis by (simp add: search_def)
      next
        case (Inr dim)
        with assms i m it have "\<not> 0 < dim"
          by (auto simp: ready_def)
        with i m it Inr show ?thesis by (simp add: search_def)
      qed
    qed
  qed
qed

lemma search_Inr_ready:
  assumes "search L st req = (calls, Inr results)"
  shows "\<exists>index items dim. ready L st index items dim"
proof (rule ccontr)
  assume "\<not> ?thesis"
  then obtain e where "search L st req = ([], Inl e)"
    using search_not_ready by blast
  with assms show False by simp
qed

text \<open>What a served request returns: the calls made and the joined rows of the index.\<close>

lemma search_served:
  assumes r: "ready L st index items dim"
      and s: "search L st req = (calls, out)"
      and c: "IndexSearch q' k \<in> set calls"
  shows "calls = [Norm (map (float32 L) (vector req)),
                  Divide (map (float32 L) (vector req))
                    (linalg_norm L (map (float32 L) (vector req))),
                  IndexSearch q' k] \<and>
         k = min (max 1 (topK req)) (int (length items)) \<and>
         out = (case index q' k of
                  Inl e \<Rightarrow> Inl e
                | Inr (distances, indices) \<Rightarrow>
                    Inr (join_results items (zip distances indices) []))"
  using s c unfolding search_ready [OF r]
  by (auto simp: Let_def split: if_splits sum.splits prod.splits)

lemma search_Inr_served:
  assumes r: "ready L st index items dim"
      and s: "search L st req = (calls, Inr results)"
  shows "\<exists>q' k distances indices.
           IndexSearch q' k \<in> set calls \<and> index q' k = Inr (distances, indices) \<and>
           k = min (max 1 (topK req)) (int (length items)) \<and>
           results = join_results items (zip distances indices) []"
  using s unfolding search_ready [OF r]
  by (auto simp: Let_def split: if_splits sum.splits prod.splits)

text \<open>
  A vector that passes the three checks is divided, element by element, by the norm the
  library has computed, and the quotients are what the index is searched with.
\<close>

lemma search_normalises:
  assumes r: "ready L st index items dim"
      and l: "int (length (vector req)) = dim"
      and f: "list_all (isfinite L) (map (float32 L) (vector req))"
      and n: "\<not> eq_zero L (linalg_norm L (map (float32 L) (vector req)))"
  shows "fst (search L st req) =
           [Norm (map (float32 L) (vector req)),
            Divide (map (float32 L) (vector req)) (linalg_norm L (map (float32 L) (vector req))),
            IndexSearch
              (map (\<lambda>x. true_divide L x (linalg_norm L (map (float32 L) (vector req))))
                 (map (float32 L) (vector req)))
              (min (max 1 (topK req)) (int (length items)))]"
  using l f n unfolding search_ready [OF r]
  by (simp add: Let_def split: sum.splits prod.splits)

subsection \<open>The example state, evaluated\<close>

lemma example_ready: "ready fixed_lib example_state example_index example_items 2"
  by (simp add: ready_def example_state_def get_def declared_dim_def)

lemma ten_ready: "ready fixed_lib ten_state example_index (replicate 10 (JObj [])) 2"
  by (simp add: ready_def ten_state_def get_def declared_dim_def)

lemma norm_fixed_unit: "norm_fixed [Fin 6, Fin 8] = Fin 10"
  by (simp add: norm_fixed_def isqrt_from.simps)

lemma str_int_2: "str_int 2 = ''2''"
  by code_simp

lemma example_search:
  "search fixed_lib example_state \<lparr>vector = [Fin 6, Fin 8], topK = 2\<rparr> =
     ([Norm [Fin 6, Fin 8], Divide [Fin 6, Fin 8] (Fin 10), IndexSearch [Fin 6, Fin 8] 2],
      Inr [result_of [(''id'', JInt 1), (''title'', JStr ''Alien''), (''year'', JInt 1979)] (Fin 10),
           result_of [] (Fin 5)])"
  unfolding search_ready [OF example_ready]
  by (simp add: Let_def fixed_lib_def norm_fixed_unit example_index_def example_items_def
      record_at_def)

lemma example_search3:
  "search fixed_lib example_state \<lparr>vector = [Fin 6, Fin 8], topK = 3\<rparr> =
     ([Norm [Fin 6, Fin 8], Divide [Fin 6, Fin 8] (Fin 10), IndexSearch [Fin 6, Fin 8] 3],
      Inr [result_of [(''id'', JInt 1), (''title'', JStr ''Alien''), (''year'', JInt 1979)] (Fin 10),
           result_of [] (Fin 5)])"
  unfolding search_ready [OF example_ready]
  by (simp add: Let_def fixed_lib_def norm_fixed_unit example_index_def example_items_def
      record_at_def)

lemma ten_search_req:
  "search fixed_lib ten_state \<lparr>vector = [Fin 6, Fin 8], topK = 200\<rparr> =
     ([Norm [Fin 6, Fin 8], Divide [Fin 6, Fin 8] (Fin 10), IndexSearch [Fin 6, Fin 8] 10],
      Inr [result_of [] (Fin 10), result_of [] (Fin 5)])"
  unfolding search_ready [OF ten_ready]
  by (simp add: Let_def fixed_lib_def norm_fixed_unit example_index_def record_at_def)

lemma ten_search:
  "post_search fixed_lib ten_state [Fin 6, Fin 8] (Some 200) =
     ([Norm [Fin 6, Fin 8], Divide [Fin 6, Fin 8] (Fin 10), IndexSearch [Fin 6, Fin 8] 10],
      Inr [result_of [] (Fin 10), result_of [] (Fin 5)])"
  by (simp add: post_search_def SearchRequest_validate_def ten_search_req)

lemma example_data_dir: "data_dir (example_os doc) = Inr ''/data/index''"
  by (simp add: data_dir_def example_os_def strip_def isspace_def)

lemma example_load:
  "load_assets (example_os (JObj [(''items'', JInt 42), (''dim'', JInt 2)])) =
     Inr (example_index, [(''items'', JInt 42), (''dim'', JInt 2)])"
  unfolding load_assets_def example_data_dir by (simp add: example_os_def)

subsection \<open>The binary32 library, evaluated\<close>

lemma ieee_ready: "ready ieee_lib ieee_state inner_product_index [JObj [(''id'', JInt 1)]] 2"
  by (simp add: ready_def ieee_state_def get_def declared_dim_def)

lemma float32_big: "to_format binary32 (Dy 1 64) = Dy 1 64"
  by (simp add: round_nearest_even_def binary32_def bit_length.simps Let_def)

lemma float32_zero: "to_format binary32 (Dy 0 0) = Dy 0 0"
  by (simp add: round_nearest_even_def)

lemma square_overflows: "ieee_mul binary32 (Dy 1 64) (Dy 1 64) = Inf_plus"
  by (simp add: ieee_mul_def round_nearest_even_def binary32_def bit_length.simps Let_def
      infinity_def)

lemma square_zero: "ieee_mul f (Dy 0 0) (Dy 0 0) = Dy 0 0"
  by (simp add: ieee_mul_def round_nearest_even_def)

lemma dot_overflows: "ieee_dot binary32 [Dy 1 64, Dy 0 0] [Dy 1 64, Dy 0 0] = Inf_plus"
  by (simp add: ieee_dot_def square_overflows square_zero ieee_add_def)

lemma norm_overflows: "linalg_norm ieee_lib [Dy 1 64, Dy 0 0] = Inf_plus"
  by (simp add: ieee_lib_def dot_overflows ieee_sqrt_def)

lemma norm_of_zero: "linalg_norm ieee_lib [Dy 0 0, Dy 0 0] = Dy 0 0"
  by (simp add: ieee_lib_def ieee_dot_def ieee_add_def ieee_mul_def round_nearest_even_def
      ieee_sqrt_def isqrt.simps)

lemma divide_by_infinity:
  "map (\<lambda>x. true_divide ieee_lib x Inf_plus) [Dy 1 64, Dy 0 0] = [Dy 0 0, Dy 0 0]"
  by (simp add: ieee_lib_def ieee_div_def)

lemma score_of_zero: "ieee_dot binary32 [Dy 0 0, Dy 0 0] [Dy 1 0, Dy 0 0] = Dy 0 0"
  by (simp add: ieee_dot_def ieee_add_def ieee_mul_def round_nearest_even_def)

subsection \<open>Client input errors\<close>

text \<open>
  C4, as amended. In a loaded service whose metadata has a list \<open>items\<close> and a positive
  declared dimension, a request whose vector has another length is rejected with status
  400 before any library call, and the detail is \<open>vector must have length\<close> followed by
  the declared dimension in decimal.
\<close>

theorem wrong_length_rejected:
  assumes "ready L st index items dim"
      and "int (length (vector req)) \<noteq> dim"
  shows "search L st req =
           ([], Inl (HTTPException 400 (''vector must have length '' @ str_int dim)))"
  using assms(2) unfolding search_ready [OF assms(1)]
  by (simp add: Let_def)

theorem wrong_length_rejected_witness:
  "ready fixed_lib example_state example_index example_items 2 \<and>
   int (length (vector \<lparr>vector = [Fin 10], topK = 2\<rparr>)) \<noteq> 2 \<and>
   search fixed_lib example_state \<lparr>vector = [Fin 10], topK = 2\<rparr> =
     ([], Inl (HTTPException 400 ''vector must have length 2''))"
proof -
  have h: "int (length (vector \<lparr>vector = [Fin 10], topK = 2\<rparr>)) \<noteq> 2" by simp
  show ?thesis
    using wrong_length_rejected [OF example_ready h] example_ready
    by (simp add: str_int_2)
qed

text \<open>
  The claim as written does not hold for every request: metadata that declares dimension
  2 but whose \<open>items\<close> is a string passes the loader, and a vector of length 3 is then
  answered with status 500 by the guard of lines 69 and 70.
\<close>

theorem wrong_length_counterexample:
  "declared_dim fixed_lib [(''items'', JStr ''none''), (''dim'', JInt 2)] = Inr 2 \<and>
   search fixed_lib items_not_list_state \<lparr>vector = [Fin 10, Fin 0, Fin 0], topK = 50\<rparr> =
     ([], Inl (HTTPException 500 ''Invalid meta.json''))"
  by (simp add: search_def items_not_list_state_def get_def declared_dim_def)

text \<open>
  C5, as amended. A request whose vector, as a \<open>float32\<close> array, holds a value that is
  not finite is always rejected, and before any library call: neither the norm nor the
  division nor the index search is reached. The rejection has status 400 when the
  service is loaded and its metadata has a list \<open>items\<close> and a positive declared
  dimension.
\<close>

theorem nonfinite_rejected_before_normalisation:
  assumes "\<exists>x \<in> set (map (float32 L) (vector req)). \<not> isfinite L x"
  shows "\<exists>e. search L st req = ([], Inl e) \<and>
             ((\<exists>index items dim. ready L st index items dim) \<longrightarrow>
              (\<exists>detail. e = HTTPException 400 detail))"
proof (cases "\<exists>index items dim. ready L st index items dim")
  case False
  with search_not_ready [of L st req] show ?thesis by blast
next
  case True
  then obtain index items dim where r: "ready L st index items dim" by blast
  from assms have "\<not> list_all (isfinite L) (map (float32 L) (vector req))"
    by (auto simp: list_all_iff)
  then show ?thesis
    unfolding search_ready [OF r] by (simp add: Let_def)
qed

theorem nonfinite_rejected_witness:
  "(\<exists>x \<in> set (map (float32 fixed_lib) (vector \<lparr>vector = [Fin 0, PosInf], topK = 2\<rparr>)).
      \<not> isfinite fixed_lib x) \<and>
   ready fixed_lib example_state example_index example_items 2 \<and>
   (\<exists>detail. search fixed_lib example_state \<lparr>vector = [Fin 0, PosInf], topK = 2\<rparr> =
      ([], Inl (HTTPException 400 detail)))"
proof -
  have h: "\<exists>x \<in> set (map (float32 fixed_lib) (vector \<lparr>vector = [Fin 0, PosInf], topK = 2\<rparr>)).
             \<not> isfinite fixed_lib x"
    by (simp add: fixed_lib_def)
  from nonfinite_rejected_before_normalisation [OF h, of example_state] example_ready h
  show ?thesis by blast
qed

text \<open>
  The claim as written does not hold for every request: with \<open>dim\<close> declared as 0 the
  vector \<open>[0.0, inf]\<close> is answered with status 500 by the guard of lines 73 and 74.
\<close>

theorem nonfinite_counterexample:
  "\<not> isfinite fixed_lib (float32 fixed_lib PosInf) \<and>
   search fixed_lib zero_dim_state \<lparr>vector = [Fin 0, PosInf], topK = 50\<rparr> =
     ([], Inl (HTTPException 500 ''Invalid vector dim in meta.json''))"
  by (simp add: search_def zero_dim_state_def get_def declared_dim_def fixed_lib_def)

text \<open>
  C3, as amended. A request whose vector has norm zero is always rejected and the index
  search is never called. The rejection has status 400 when the service is loaded and
  its metadata has a list \<open>items\<close> and a positive declared dimension.
\<close>

theorem zero_norm_rejected:
  assumes "eq_zero L (linalg_norm L (map (float32 L) (vector req)))"
  shows "\<exists>calls e. search L st req = (calls, Inl e) \<and>
             (\<forall>q' k. IndexSearch q' k \<notin> set calls) \<and>
             ((\<exists>index items dim. ready L st index items dim) \<longrightarrow>
              (\<exists>detail. e = HTTPException 400 detail))"
proof (cases "\<exists>index items dim. ready L st index items dim")
  case False
  from search_not_ready [OF False, of req] obtain e where "search L st req = ([], Inl e)" ..
  with False show ?thesis by simp
next
  case True
  then obtain index items dim where r: "ready L st index items dim" by blast
  from assms show ?thesis
    unfolding search_ready [OF r] by (simp add: Let_def)
qed

theorem zero_norm_rejected_witness:
  "eq_zero fixed_lib
     (linalg_norm fixed_lib (map (float32 fixed_lib) (vector \<lparr>vector = [Fin 0, Fin 0], topK = 2\<rparr>))) \<and>
   ready fixed_lib example_state example_index example_items 2 \<and>
   (\<exists>calls detail. search fixed_lib example_state \<lparr>vector = [Fin 0, Fin 0], topK = 2\<rparr> =
      (calls, Inl (HTTPException 400 detail)))"
proof -
  have h: "eq_zero fixed_lib
     (linalg_norm fixed_lib (map (float32 fixed_lib) (vector \<lparr>vector = [Fin 0, Fin 0], topK = 2\<rparr>)))"
    by (simp add: fixed_lib_def norm_fixed_def isqrt_from.simps)
  from zero_norm_rejected [OF h, of example_state] example_ready h
  show ?thesis by blast
qed

text \<open>
  The claim as written does not hold for every request: metadata without \<open>dim\<close> passes
  the loader, and the all-zeros vector is then answered with status 500 by the guard of
  lines 73 and 74.
\<close>

theorem zero_norm_counterexample:
  "eq_zero fixed_lib (linalg_norm fixed_lib (map (float32 fixed_lib) [Fin 0, Fin 0])) \<and>
   search fixed_lib no_dim_state \<lparr>vector = [Fin 0, Fin 0], topK = 50\<rparr> =
     ([], Inl (HTTPException 500 ''Invalid vector dim in meta.json''))"
  by (simp add: search_def no_dim_state_def get_def declared_dim_def fixed_lib_def
      norm_fixed_def isqrt_from.simps)

subsection \<open>The query normalizer\<close>

text \<open>
  C2 does not hold of the code. The request vector \<open>[2^64, 0.0]\<close> of the declared
  dimension 2 is finite as a \<open>float32\<close> array and its Euclidean norm is \<open>2^64\<close>, not zero.
  The norm of line 83 is taken in binary32, where the square \<open>2^128\<close> overflows: the
  computed norm is infinity, the test \<open>norm == 0\<close> of line 84 lets it pass, and the
  division of line 86 gives \<open>[0.0, 0.0]\<close>. The index is searched with this vector, whose
  norm is 0 and not 1, and the stored vector \<open>[1.0, 0.0]\<close>, which has the direction of the
  query, is returned with the score 0.
\<close>

theorem normalizer_overflow_sends_zero_vector:
  "list_all (isfinite ieee_lib) (map (float32 ieee_lib) [Dy 1 64, Dy 0 0]) \<and>
   linalg_norm ieee_lib (map (float32 ieee_lib) [Dy 1 64, Dy 0 0]) = Inf_plus \<and>
   \<not> eq_zero ieee_lib Inf_plus \<and>
   search ieee_lib ieee_state \<lparr>vector = [Dy 1 64, Dy 0 0], topK = 1\<rparr> =
     ([Norm [Dy 1 64, Dy 0 0], Divide [Dy 1 64, Dy 0 0] Inf_plus,
       IndexSearch [Dy 0 0, Dy 0 0] 1],
      Inr [result_of [(''id'', JInt 1)] (Dy 0 0)]) \<and>
   linalg_norm ieee_lib [Dy 0 0, Dy 0 0] = Dy 0 0"
proof -
  have f: "map (float32 ieee_lib) [Dy 1 64, Dy 0 0] = [Dy 1 64, Dy 0 0]"
    using float32_big float32_zero by (simp add: ieee_lib_def)
  have fin: "list_all (isfinite ieee_lib) [Dy 1 64, Dy 0 0]"
    by (simp add: ieee_lib_def)
  have z: "\<not> eq_zero ieee_lib Inf_plus"
    by (simp add: ieee_lib_def)
  have s: "search ieee_lib ieee_state \<lparr>vector = [Dy 1 64, Dy 0 0], topK = 1\<rparr> =
     ([Norm [Dy 1 64, Dy 0 0], Divide [Dy 1 64, Dy 0 0] Inf_plus,
       IndexSearch [Dy 0 0, Dy 0 0] 1],
      Inr [result_of [(''id'', JInt 1)] (Dy 0 0)])"
    unfolding search_ready [OF ieee_ready] SearchRequest.simps f
    using divide_by_infinity fin z
    by (simp add: Let_def norm_overflows inner_product_index_def score_of_zero record_at_def)
  from f fin z s norm_overflows norm_of_zero show ?thesis by simp
qed


subsection \<open>The result joiner\<close>

text \<open>
  C1. The index is a parameter; its contract is that a search for \<open>k\<close> neighbours returns
  at most \<open>k\<close> scores, ranked by an order \<open>ge\<close> (non-increasing score). For a validated
  request that is served, the results are then at most \<open>min(topK, len(items))\<close>, their
  scores are a subsequence of the scores the index returned, in the same order, and so
  they are ranked by \<open>ge\<close> as well.
\<close>

theorem results_bounded_and_ranked:
  assumes v: "SearchRequest_validate v t = Inr req"
      and r: "ready L st index items dim"
      and s: "search L st req = (calls, Inr results)"
      and c: "IndexSearch q' k \<in> set calls"
      and i: "index q' k = Inr (distances, indices)"
      and n: "length distances \<le> nat k"
      and o: "sorted_wrt ge distances"
  shows "length results \<le> min (nat (topK req)) (length items) \<and>
         (\<exists>scores. map (\<lambda>r. get r ''score'') results = map JFloat scores \<and>
                    subseq scores distances \<and> sorted_wrt ge scores)"
proof -
  let ?P = "\<lambda>(score, idx). 0 \<le> idx \<and> idx < int (length items)"
  let ?zs = "zip distances indices"
  from v have t: "1 \<le> topK req"
    by (auto simp: SearchRequest_validate_def Let_def split: if_splits)
  from search_served [OF r s c] i
  have k: "k = min (max 1 (topK req)) (int (length items))"
    and res: "results = map (\<lambda>(score, idx). result_of (record_at items idx) score) (filter ?P ?zs)"
    by (simp_all add: join_results_filter)
  have "length results = length (filter ?P ?zs)"
    unfolding res by simp
  also have "\<dots> \<le> length ?zs" by (rule length_filter_le)
  also have "\<dots> \<le> length distances" by simp
  also note n
  also from k t have "nat k = min (nat (topK req)) (length items)" by simp
  finally have bound: "length results \<le> min (nat (topK req)) (length items)" .
  let ?scores = "map fst (filter ?P ?zs)"
  have m: "map (\<lambda>r. get r ''score'') results = map JFloat ?scores"
    unfolding res by (simp add: score_result_of split_def)
  have s1: "subseq ?scores (map fst ?zs)"
    by (rule subseq_map) simp
  have s2: "subseq (map fst ?zs) distances"
    by (simp add: map_fst_zip_take prefix_imp_subseq take_is_prefix)
  have sub: "subseq ?scores distances"
    using s1 s2 by (rule subseq_order.order_trans)
  have srt: "sorted_wrt ge ?scores"
    using o by (rule sorted_wrt_scores)
  show ?thesis
  proof (intro conjI exI)
    show "length results \<le> min (nat (topK req)) (length items)" by (rule bound)
    show "map (\<lambda>r. get r ''score'') results = map JFloat ?scores" by (rule m)
    show "subseq ?scores distances" by (rule sub)
    show "sorted_wrt ge ?scores" by (rule srt)
  qed
qed

theorem results_bounded_and_ranked_witness:
  "SearchRequest_validate [Fin 6, Fin 8] (Some 2) = Inr \<lparr>vector = [Fin 6, Fin 8], topK = 2\<rparr> \<and>
   ready fixed_lib example_state example_index example_items 2 \<and>
   example_index [Fin 6, Fin 8] 2 = Inr ([Fin 10, Fin 5], [0, 1]) \<and>
   length [Fin 10, Fin 5] \<le> nat 2 \<and>
   sorted_wrt ge_fixed [Fin 10, Fin 5] \<and>
   length [result_of [(''id'', JInt 1), (''title'', JStr ''Alien''), (''year'', JInt 1979)] (Fin 10),
           result_of [] (Fin 5)] \<le> min (nat 2) (length example_items) \<and>
   (\<exists>scores.
      map (\<lambda>r. get r ''score'')
        [result_of [(''id'', JInt 1), (''title'', JStr ''Alien''), (''year'', JInt 1979)] (Fin 10),
         result_of [] (Fin 5)] = map JFloat scores \<and>
      subseq scores [Fin 10, Fin 5] \<and> sorted_wrt ge_fixed scores)"
proof -
  have v: "SearchRequest_validate [Fin 6, Fin 8] (Some 2) =
             Inr \<lparr>vector = [Fin 6, Fin 8], topK = 2\<rparr>"
    by (simp add: SearchRequest_validate_def)
  have c: "IndexSearch [Fin 6, Fin 8] 2 \<in>
             set [Norm [Fin 6, Fin 8], Divide [Fin 6, Fin 8] (Fin 10), IndexSearch [Fin 6, Fin 8] 2]"
    by simp
  have i: "example_index [Fin 6, Fin 8] 2 = Inr ([Fin 10, Fin 5], [0, 1])"
    by (simp add: example_index_def)
  have n: "length [Fin 10, Fin 5] \<le> nat 2" by simp
  have o: "sorted_wrt ge_fixed [Fin 10, Fin 5]" by simp
  from results_bounded_and_ranked [OF v example_ready example_search c i n o]
  have "length [result_of [(''id'', JInt 1), (''title'', JStr ''Alien''), (''year'', JInt 1979)] (Fin 10),
                result_of [] (Fin 5)] \<le> min (nat 2) (length example_items) \<and>
        (\<exists>scores.
           map (\<lambda>r. get r ''score'')
             [result_of [(''id'', JInt 1), (''title'', JStr ''Alien''), (''year'', JInt 1979)] (Fin 10),
              result_of [] (Fin 5)] = map JFloat scores \<and>
           subseq scores [Fin 10, Fin 5] \<and> sorted_wrt ge_fixed scores)"
    by simp
  with v example_ready i n o show ?thesis by blast
qed

text \<open>
  C6. When the index search has returned its rows, the request succeeds and the results
  are exactly the pairs whose position lies in \<open>0 \<le> idx < len(items)\<close>, in the order
  of the rows: a pair with a negative position (the sentinel \<open>-1\<close> included) or a
  position at or beyond the catalogue length leaves no entry, and no placeholder.
\<close>

theorem out_of_range_positions_dropped:
  assumes r: "ready L st index items dim"
      and s: "search L st req = (calls, out)"
      and c: "IndexSearch q' k \<in> set calls"
      and i: "index q' k = Inr (distances, indices)"
  shows "out = Inr (map (\<lambda>(score, idx). result_of (record_at items idx) score)
                      (filter (\<lambda>(score, idx). 0 \<le> idx \<and> idx < int (length items))
                         (zip distances indices)))"
  using search_served [OF r s c] i by (simp add: join_results_filter)

theorem out_of_range_positions_dropped_witness:
  "ready fixed_lib example_state example_index example_items 2 \<and>
   search fixed_lib example_state \<lparr>vector = [Fin 6, Fin 8], topK = 3\<rparr> =
     ([Norm [Fin 6, Fin 8], Divide [Fin 6, Fin 8] (Fin 10), IndexSearch [Fin 6, Fin 8] 3],
      Inr [result_of [(''id'', JInt 1), (''title'', JStr ''Alien''), (''year'', JInt 1979)] (Fin 10),
           result_of [] (Fin 5)]) \<and>
   example_index [Fin 6, Fin 8] 3 = Inr ([Fin 10, Fin 5, Fin 0], [0, 1, - 1]) \<and>
   Inr [result_of [(''id'', JInt 1), (''title'', JStr ''Alien''), (''year'', JInt 1979)] (Fin 10),
        result_of [] (Fin 5)] =
     Inr (map (\<lambda>(score, idx). result_of (record_at example_items idx) score)
            (filter (\<lambda>(score, idx). 0 \<le> idx \<and> idx < int (length example_items))
               (zip [Fin 10, Fin 5, Fin 0] [0, 1, - 1])))"
proof -
  have c: "IndexSearch [Fin 6, Fin 8] 3 \<in>
             set [Norm [Fin 6, Fin 8], Divide [Fin 6, Fin 8] (Fin 10), IndexSearch [Fin 6, Fin 8] 3]"
    by simp
  have i: "example_index [Fin 6, Fin 8] 3 = Inr ([Fin 10, Fin 5, Fin 0], [0, 1, - 1])"
    by (simp add: example_index_def)
  from out_of_range_positions_dropped [OF example_ready example_search3 c i]
    example_ready example_search3 i
  show ?thesis by blast
qed

text \<open>
  C7. Every result of a successful search carries the keys \<open>score\<close> and \<open>similarity\<close>,
  and both hold the same float. Equality is that of the value stored, not the
  comparison \<open>==\<close> of floats, which is false on a NaN.
\<close>

theorem score_equals_similarity:
  assumes s: "search L st req = (calls, Inr results)"
      and m: "r \<in> set results"
  shows "\<exists>score. map_of r ''score'' = Some (JFloat score) \<and>
                 map_of r ''similarity'' = Some (JFloat score)"
proof -
  from search_Inr_ready [OF s] obtain index items dim
    where r: "ready L st index items dim" by blast
  from search_Inr_served [OF r s] obtain distances indices
    where "results = join_results items (zip distances indices) []" by blast
  with m obtain rec score where "r = result_of rec score"
    by (auto simp: join_results_filter)
  then show ?thesis by (simp add: result_of_def)
qed

theorem score_equals_similarity_witness:
  "search fixed_lib example_state \<lparr>vector = [Fin 6, Fin 8], topK = 2\<rparr> =
     ([Norm [Fin 6, Fin 8], Divide [Fin 6, Fin 8] (Fin 10), IndexSearch [Fin 6, Fin 8] 2],
      Inr [result_of [(''id'', JInt 1), (''title'', JStr ''Alien''), (''year'', JInt 1979)] (Fin 10),
           result_of [] (Fin 5)]) \<and>
   map_of (result_of [] (Fin 5)) ''score'' = Some (JFloat (Fin 5)) \<and>
   map_of (result_of [] (Fin 5)) ''similarity'' = Some (JFloat (Fin 5))"
proof -
  have m: "result_of [] (Fin 5) \<in>
             set [result_of [(''id'', JInt 1), (''title'', JStr ''Alien''), (''year'', JInt 1979)] (Fin 10),
                  result_of [] (Fin 5 :: fixed)]"
    by simp
  from score_equals_similarity [OF example_search m] example_search
  show ?thesis by (auto simp: result_of_def)
qed

text \<open>
  C10. A position in range whose catalogue entry is not an object still yields a result:
  the request succeeds and the results hold, for that neighbour, the dict with the eight
  metadata fields \<open>None\<close> and the neighbour's score under \<open>score\<close> and \<open>similarity\<close>.
\<close>

theorem non_object_entry_gives_null_fields:
  assumes r: "ready L st index items dim"
      and s: "search L st req = (calls, out)"
      and c: "IndexSearch q' k \<in> set calls"
      and i: "index q' k = Inr (distances, indices)"
      and p: "(score, idx) \<in> set (zip distances indices)"
      and lo: "0 \<le> idx"
      and hi: "idx < int (length items)"
      and no: "\<forall>m. items ! nat idx \<noteq> JObj m"
  shows "\<exists>results. out = Inr results \<and>
           [(''imdbId'', JNull), (''id'', JNull), (''title'', JNull), (''year'', JNull),
            (''genre'', JNull), (''productionCountry'', JNull), (''keywords'', JNull),
            (''moodTags'', JNull), (''score'', JFloat score), (''similarity'', JFloat score)]
           \<in> set results"
proof -
  let ?P = "\<lambda>(score, idx). 0 \<le> idx \<and> idx < int (length items)"
  let ?f = "\<lambda>(score, idx). result_of (record_at items idx) score"
  from search_served [OF r s c] i
  have out: "out = Inr (map ?f (filter ?P (zip distances indices)))"
    by (simp add: join_results_filter)
  from no have e: "record_at items idx = []"
    by (cases "items ! nat idx") (simp_all add: record_at_def)
  from p lo hi have "(score, idx) \<in> set (filter ?P (zip distances indices))"
    by simp
  then have "?f (score, idx) \<in> ?f ` set (filter ?P (zip distances indices))"
    by (rule imageI)
  then have "result_of [] score \<in> set (map ?f (filter ?P (zip distances indices)))"
    by (simp add: e)
  then show ?thesis
    unfolding out by (simp add: result_of_def get_def)
qed

theorem non_object_entry_witness:
  "ready fixed_lib example_state example_index example_items 2 \<and>
   example_index [Fin 6, Fin 8] 2 = Inr ([Fin 10, Fin 5], [0, 1]) \<and>
   example_items ! nat 1 = JStr ''not a record'' \<and>
   (\<exists>results.
      snd (search fixed_lib example_state \<lparr>vector = [Fin 6, Fin 8], topK = 2\<rparr>) = Inr results \<and>
      [(''imdbId'', JNull), (''id'', JNull), (''title'', JNull), (''year'', JNull),
       (''genre'', JNull), (''productionCountry'', JNull), (''keywords'', JNull),
       (''moodTags'', JNull), (''score'', JFloat (Fin 5)), (''similarity'', JFloat (Fin 5))]
      \<in> set results)"
proof -
  have c: "IndexSearch [Fin 6, Fin 8] 2 \<in>
             set [Norm [Fin 6, Fin 8], Divide [Fin 6, Fin 8] (Fin 10), IndexSearch [Fin 6, Fin 8] 2]"
    by simp
  have i: "example_index [Fin 6, Fin 8] 2 = Inr ([Fin 10, Fin 5], [0, 1])"
    by (simp add: example_index_def)
  have p: "(Fin 5, 1) \<in> set (zip [Fin 10, Fin 5] [0, 1 :: int])" by simp
  have lo: "(0 :: int) \<le> 1" by simp
  have hi: "1 < int (length example_items)" by (simp add: example_items_def)
  have e: "example_items ! nat 1 = JStr ''not a record''" by (simp add: example_items_def)
  then have no: "\<forall>m. example_items ! nat 1 \<noteq> JObj m" by simp
  from non_object_entry_gives_null_fields [OF example_ready example_search c i p lo hi no]
    example_ready i e example_search
  show ?thesis by simp
qed

subsection \<open>The effective K\<close>

text \<open>
  C8, as amended. Whenever a request on the route reaches the index search, its \<open>topK\<close>
  (50 when the body has none) lies between 1 and 200, and the \<open>k\<close> passed to the index is
  \<open>min(max(1, topK), len(items))\<close>, which is then \<open>min(topK, len(items))\<close>: it is at
  most the catalogue size, and at least 1 unless the catalogue is empty.
\<close>

theorem effective_k_clamped:
  assumes r: "ready L st index items dim"
      and s: "post_search L st v t = (calls, out)"
      and c: "IndexSearch q' k \<in> set calls"
  shows "let n = (case t of None \<Rightarrow> 50 | Some n \<Rightarrow> n)
         in 1 \<le> n \<and> n \<le> 200 \<and>
            k = min (max 1 n) (int (length items)) \<and>
            k = min n (int (length items))"
proof (cases "SearchRequest_validate v t")
  case (Inl e)
  with s c show ?thesis by (simp add: post_search_def)
next
  case (Inr req)
  then have t: "topK req = (case t of None \<Rightarrow> 50 | Some n \<Rightarrow> n)" "1 \<le> topK req" "topK req \<le> 200"
    by (auto simp: SearchRequest_validate_def Let_def split: if_splits)
  from s Inr have "search L st req = (calls, out)" by (simp add: post_search_def)
  from search_served [OF r this c] have "k = min (max 1 (topK req)) (int (length items))"
    by simp
  with t show ?thesis by (simp add: Let_def)
qed

theorem effective_k_clamped_witness:
  "ready fixed_lib ten_state example_index (replicate 10 (JObj [])) 2 \<and>
   post_search fixed_lib ten_state [Fin 6, Fin 8] (Some 200) =
     ([Norm [Fin 6, Fin 8], Divide [Fin 6, Fin 8] (Fin 10), IndexSearch [Fin 6, Fin 8] 10],
      Inr [result_of [] (Fin 10), result_of [] (Fin 5)]) \<and>
   (10 :: int) = min 200 (int (length (replicate 10 (JObj [] :: fixed json))))"
proof -
  have c: "IndexSearch [Fin 6, Fin 8] 10 \<in>
             set [Norm [Fin 6, Fin 8], Divide [Fin 6, Fin 8] (Fin 10), IndexSearch [Fin 6, Fin 8] 10]"
    by simp
  from effective_k_clamped [OF ten_ready ten_search c] ten_ready ten_search
  show ?thesis by (simp add: Let_def)
qed

text \<open>
  The example of the claim does not hold: a request with \<open>topK = 500\<close> against a
  catalogue of ten items fails the validation of \<open>SearchRequest\<close> (\<open>le=200\<close>), so it is
  not served and the index is not searched with any \<open>k\<close>.
\<close>

theorem effective_k_counterexample:
  "ready fixed_lib ten_state example_index (replicate 10 (JObj [])) 2 \<and>
   length (replicate 10 (JObj [] :: fixed json)) = 10 \<and>
   post_search fixed_lib ten_state [Fin 6, Fin 8] (Some 500) = ([], Inl ValidationError)"
  using ten_ready by (simp add: post_search_def SearchRequest_validate_def)

subsection \<open>Startup\<close>

text \<open>
  C9, as amended. When both files exist and are read, and the metadata document is not an
  object containing the key \<open>items\<close>, the loader raises the \<open>ValueError\<close> of line 42 and
  startup leaves both globals unset. The process then exits with that exception: it does
  not become \<open>Ready\<close>, and no search request sent to it is accepted.
\<close>

theorem loader_rejects_metadata_without_items:
  assumes d: "data_dir env = Inr dir"
      and e1: "path_exists env (joinpath env dir ''faiss.index'')"
      and e2: "path_exists env (joinpath env dir ''meta.json'')"
      and ri: "read_index env (joinpath env dir ''faiss.index'') = Inr index"
      and lo: "loads_text env (joinpath env dir ''meta.json'') = Inr doc"
      and no: "\<forall>meta. doc = JObj meta \<longrightarrow> ''items'' \<notin> set (map fst meta)"
  shows "load_assets env = Inl (ValueError invalid_meta) \<and>
         startup env initial = (initial, Inl (ValueError invalid_meta)) \<and>
         run env = Exited (ValueError invalid_meta) \<and>
         dispatch L (run env) v t = None"
proof -
  from no have l: "load_assets env = Inl (ValueError invalid_meta)"
    by (cases doc) (simp_all add: load_assets_def d e1 e2 ri lo)
  then have st: "startup env initial = (initial, Inl (ValueError invalid_meta))"
    by (simp add: startup_def)
  then have r: "run env = Exited (ValueError invalid_meta)"
    by (simp add: run_def)
  with l st show ?thesis by simp
qed

theorem loader_rejects_witness:
  "data_dir (example_os (JArr [])) = Inr ''/data/index'' \<and>
   loads_text (example_os (JArr [])) (joinpath (example_os (JArr [])) ''/data/index'' ''meta.json'') =
     Inr (JArr []) \<and>
   load_assets (example_os (JArr [])) = Inl (ValueError invalid_meta) \<and>
   run (example_os (JArr [])) = Exited (ValueError invalid_meta) \<and>
   dispatch fixed_lib (run (example_os (JArr []))) [Fin 6, Fin 8] (Some 2) = None"
proof -
  let ?env = "example_os (JArr [])"
  have e1: "path_exists ?env (joinpath ?env ''/data/index'' ''faiss.index'')"
    by (simp add: example_os_def)
  have e2: "path_exists ?env (joinpath ?env ''/data/index'' ''meta.json'')"
    by (simp add: example_os_def)
  have ri: "read_index ?env (joinpath ?env ''/data/index'' ''faiss.index'') = Inr example_index"
    by (simp add: example_os_def)
  have lo: "loads_text ?env (joinpath ?env ''/data/index'' ''meta.json'') = Inr (JArr [])"
    by (simp add: example_os_def)
  have no: "\<forall>meta. (JArr [] :: fixed json) = JObj meta \<longrightarrow> ''items'' \<notin> set (map fst meta)"
    by simp
  from loader_rejects_metadata_without_items [OF example_data_dir e1 e2 ri lo no]
    example_data_dir lo
  show ?thesis by blast
qed

text \<open>
  The claim as written does not hold: the loader does not test that \<open>items\<close> is an
  array. A document whose \<open>items\<close> is the number 42 is loaded, startup sets both
  globals, and it is the search handler that answers 500, \<open>Invalid meta.json\<close>, on each
  request.
\<close>

theorem loader_counterexample:
  "snd (startup (example_os (JObj [(''items'', JInt 42), (''dim'', JInt 2)])) initial) = Inr () \<and>
   META (fst (startup (example_os (JObj [(''items'', JInt 42), (''dim'', JInt 2)])) initial)) =
     Some [(''items'', JInt 42), (''dim'', JInt 2)] \<and>
   search fixed_lib
     (fst (startup (example_os (JObj [(''items'', JInt 42), (''dim'', JInt 2)])) initial))
     \<lparr>vector = [Fin 6, Fin 8], topK = 2\<rparr> =
     ([], Inl (HTTPException 500 ''Invalid meta.json''))"
  by (simp add: startup_def example_load initial_def search_def get_def)

end
